theory Spec2Isabelle
  imports Complex_Main "HOL-Library.Sublist"
begin

section \<open>Strings\<close>

text \<open>
  JavaScript strings are modelled as \<^typ>\<open>string\<close>. The case conversions are the
  ASCII ones (\<open>A\<close>..\<open>Z\<close> against \<open>a\<close>..\<open>z\<close>); every user-agent string and every
  error code of the Web Speech API is ASCII.
\<close>

definition toLowerCase_char :: "char \<Rightarrow> char" where
  "toLowerCase_char c =
     (let n = (of_char c :: nat) in if 65 \<le> n \<and> n \<le> 90 then char_of (n + 32) else c)"

definition toLowerCase :: "string \<Rightarrow> string" where
  "toLowerCase s = map toLowerCase_char s"

definition toUpperCase_char :: "char \<Rightarrow> char" where
  "toUpperCase_char c =
     (let n = (of_char c :: nat) in if 97 \<le> n \<and> n \<le> 122 then char_of (n - 32) else c)"

definition toUpperCase :: "string \<Rightarrow> string" where
  "toUpperCase s = map toUpperCase_char s"

text \<open>\<open>s.includes(p)\<close>: \<open>p\<close> occurs in \<open>s\<close> as a contiguous substring.\<close>

fun str_includes :: "string \<Rightarrow> string \<Rightarrow> bool" where
  "str_includes [] p = (p = [])"
| "str_includes (c # cs) p = (prefix p (c # cs) \<or> str_includes cs p)"

text \<open>
  \<open>s.replace(pat, rep)\<close> with a string pattern: only the first occurrence of
  \<open>pat\<close> is replaced.
\<close>

fun str_replace :: "string \<Rightarrow> string \<Rightarrow> string \<Rightarrow> string" where
  "str_replace [] pat rep = (if pat = [] then rep else [])"
| "str_replace (c # cs) pat rep =
     (if prefix pat (c # cs) then rep @ drop (length pat) (c # cs)
      else c # str_replace cs pat rep)"

text \<open>
  The reference normal form of an error code: upper case, every hyphen an underscore.
\<close>

definition hyphen_to_underscore :: "char \<Rightarrow> char" where
  "hyphen_to_underscore c = (if c = CHR ''-'' then CHR ''_'' else c)"

definition upper_snake :: "string \<Rightarrow> string" where
  "upper_snake s = map hyphen_to_underscore (toUpperCase s)"

section \<open>The hosting environment\<close>

text \<open>
  What \<open>new SpeechRecognitionConstructor()\<close> does: it returns an instance, throws
  an \<open>Error\<close> with a message, or throws some other value.
\<close>

datatype constructor_behaviour = Constructs | ThrowsError string | ThrowsValue

text \<open>
  The browser globals the hook reads: \<open>navigator.userAgent\<close>, whether
  \<open>navigator.brave\<close> is present and defined, and the four vendor constructors of
  \<open>window\<close>. The environment is \<open>None\<close> when \<open>typeof window === "undefined"\<close>.
\<close>

record browser =
  userAgent :: string
  brave :: bool
  win_SpeechRecognition :: "constructor_behaviour option"
  win_webkitSpeechRecognition :: "constructor_behaviour option"
  win_mozSpeechRecognition :: "constructor_behaviour option"
  win_msSpeechRecognition :: "constructor_behaviour option"

type_synonym environment = "browser option"

definition getBrowserSpeechRecognition :: "environment \<Rightarrow> constructor_behaviour option" where
  "getBrowserSpeechRecognition env =
     (case env of
        None \<Rightarrow> None
      | Some w \<Rightarrow>
          (case win_SpeechRecognition w of
             Some c \<Rightarrow> Some c
           | None \<Rightarrow>
               (case win_webkitSpeechRecognition w of
                  Some c \<Rightarrow> Some c
                | None \<Rightarrow>
                    (case win_mozSpeechRecognition w of
                       Some c \<Rightarrow> Some c
                     | None \<Rightarrow> win_msSpeechRecognition w))))"

record compatibility =
  chk_isSupported :: bool
  chk_browserName :: string
  chk_reason :: string

text \<open>
  The regular expressions of the Safari branch.
  \<open>/Android|webOS|iPhone|iPad|iPod|BlackBerry|IEMobile|Opera Mini/i\<close> ignores case;
  \<open>/(Macintosh|Mac OS)/\<close> does not.
\<close>

definition isMobile_test :: "string \<Rightarrow> bool" where
  "isMobile_test ua =
     list_ex (\<lambda>p. str_includes (toLowerCase ua) (toLowerCase p))
       [''Android'', ''webOS'', ''iPhone'', ''iPad'', ''iPod'', ''BlackBerry'', ''IEMobile'',
        ''Opera Mini'']"

definition isMac_test :: "string \<Rightarrow> bool" where
  "isMac_test ua = (str_includes ua ''Macintosh'' \<or> str_includes ua ''Mac OS'')"

definition is_digit :: "char \<Rightarrow> bool" where
  "is_digit c = (let n = (of_char c :: nat) in 48 \<le> n \<and> n \<le> 57)"

text \<open>\<open>Number.parseInt(ds, 10)\<close> on a string of decimal digits.\<close>

definition parseInt10 :: "string \<Rightarrow> nat" where
  "parseInt10 ds = foldl (\<lambda>acc c. 10 * acc + (of_char c - 48)) 0 ds"

text \<open>
  \<open>/OS (\d+)_(\d+)/\<close> anchored at the head of the string, and its leftmost match
  in a string. Both groups are greedy; no shorter first group can be followed by
  an underscore, so the greedy split is the only one.
\<close>

definition ios_version_at :: "string \<Rightarrow> (string \<times> string) option" where
  "ios_version_at s =
     (if prefix ''OS '' s then
        (let r = drop 3 s;
             major = takeWhile is_digit r;
             r1 = dropWhile is_digit r
         in if major \<noteq> [] \<and> prefix ''_'' r1 then
              (let minor = takeWhile is_digit (drop 1 r1)
               in if minor \<noteq> [] then Some (major, minor) else None)
            else None)
      else None)"

fun ios_version_match :: "string \<Rightarrow> (string \<times> string) option" where
  "ios_version_match [] = None"
| "ios_version_match (c # cs) =
     (case ios_version_at (c # cs) of
        Some m \<Rightarrow> Some m
      | None \<Rightarrow> ios_version_match cs)"

definition checkBrowserCompatibility :: "environment \<Rightarrow> compatibility" where
  "checkBrowserCompatibility env =
     (case env of
        None \<Rightarrow>
          \<lparr>chk_isSupported = False, chk_browserName = ''Unknown'',
           chk_reason = ''Not running in browser environment''\<rparr>
      | Some w \<Rightarrow>
          (let ua = toLowerCase (userAgent w);
               isBrave = brave w;
               isChrome = (str_includes ua ''chrome'' \<and> \<not> str_includes ua ''edg'' \<and> \<not> isBrave);
               isEdge = str_includes ua ''edg'';
               isSafari = (str_includes ua ''safari'' \<and> \<not> str_includes ua ''chrome'');
               isFirefox = str_includes ua ''firefox'';
               isOpera = (str_includes ua ''opr'' \<or> str_includes ua ''opera'');
               speechRecognitionExists = (getBrowserSpeechRecognition env \<noteq> None)
           in
             if isBrave then
               \<lparr>chk_isSupported = False, chk_browserName = ''Brave'',
                chk_reason =
                  ''Brave Browser does not support Web Speech API for privacy reasons''\<rparr>
             else if isFirefox then
               \<lparr>chk_isSupported = False, chk_browserName = ''Firefox'',
                chk_reason = ''Firefox does not support Web Speech API''\<rparr>
             else if isOpera then
               \<lparr>chk_isSupported = speechRecognitionExists, chk_browserName = ''Opera'',
                chk_reason =
                  (if speechRecognitionExists then ''''
                   else ''Opera has limited Web Speech API support'')\<rparr>
             else if isChrome then
               \<lparr>chk_isSupported = speechRecognitionExists, chk_browserName = ''Chrome'',
                chk_reason =
                  (if speechRecognitionExists then ''''
                   else ''Chrome should support Web Speech API but it's not available'')\<rparr>
             else if isEdge then
               \<lparr>chk_isSupported = speechRecognitionExists, chk_browserName = ''Edge'',
                chk_reason =
                  (if speechRecognitionExists then ''''
                   else ''Edge should support Web Speech API but it's not available'')\<rparr>
             else if isSafari then
               (case (if isMobile_test (userAgent w) then ios_version_match (userAgent w)
                      else None) of
                  Some (major, minor) \<Rightarrow>
                    (let majorVersion = parseInt10 major;
                         minorVersion = parseInt10 minor;
                         isSupported' =
                           (majorVersion > 14 \<or> (majorVersion = 14 \<and> minorVersion \<ge> 5))
                     in \<lparr>chk_isSupported = (isSupported' \<and> speechRecognitionExists),
                         chk_browserName = ''Safari (iOS)'',
                         chk_reason =
                           (if \<not> isSupported' then ''Web Speech API requires iOS 14.5 or later''
                            else if \<not> speechRecognitionExists then
                              ''Web Speech API is not available''
                            else '''')\<rparr>)
                | None \<Rightarrow>
                    if isMac_test (userAgent w) then
                      \<lparr>chk_isSupported = speechRecognitionExists,
                       chk_browserName = ''Safari (macOS)'',
                       chk_reason =
                         (if speechRecognitionExists then ''''
                          else ''Web Speech API requires Safari 14.1 or later'')\<rparr>
                    else
                      \<lparr>chk_isSupported = speechRecognitionExists, chk_browserName = ''Safari'',
                       chk_reason =
                         (if speechRecognitionExists then ''''
                          else ''Web Speech API may not be supported on this Safari version'')\<rparr>)
             else
               \<lparr>chk_isSupported = speechRecognitionExists, chk_browserName = ''Unknown Browser'',
                chk_reason =
                  (if speechRecognitionExists then ''''
                   else ''This browser does not support Web Speech API'')\<rparr>))"

section \<open>Data model\<close>

text \<open>
  \<open>SpeechToTextOptions\<close>. Every field is optional in the source; \<open>None\<close> is an
  absent field. \<open>onAutoStop\<close> records whether a callback is provided: calling it
  appends its argument to the log \<open>autoStopCalls\<close> of the hook.
\<close>

record autoStopOnSilence_options =
  enabled :: bool
  silenceDuration :: "nat option"
  onAutoStop :: bool

record SpeechToTextOptions =
  opt_continuous :: "bool option"
  opt_interimResults :: "bool option"
  opt_maxAlternatives :: "nat option"
  opt_language :: "string option"
  opt_autoStopOnSilence :: "autoStopOnSilence_options option"

definition DEFAULT_OPTIONS :: SpeechToTextOptions where
  "DEFAULT_OPTIONS =
     \<lparr>opt_continuous = Some True, opt_interimResults = Some True,
      opt_maxAlternatives = Some 1, opt_language = Some ''en-US'',
      opt_autoStopOnSilence =
        Some \<lparr>enabled = False, silenceDuration = Some 3000, onAutoStop = False\<rparr>\<rparr>"

text \<open>
  The object spread \<open>{ ...base, ...over }\<close>: a field present in \<open>over\<close> wins, and
  \<open>autoStopOnSilence\<close> is replaced as a whole (the spread is shallow).
\<close>

definition spread_field :: "'a option \<Rightarrow> 'a option \<Rightarrow> 'a option" where
  "spread_field base over = (case over of Some v \<Rightarrow> Some v | None \<Rightarrow> base)"

definition spread_options :: "SpeechToTextOptions \<Rightarrow> SpeechToTextOptions \<Rightarrow> SpeechToTextOptions" where
  "spread_options base over =
     \<lparr>opt_continuous = spread_field (opt_continuous base) (opt_continuous over),
      opt_interimResults = spread_field (opt_interimResults base) (opt_interimResults over),
      opt_maxAlternatives = spread_field (opt_maxAlternatives base) (opt_maxAlternatives over),
      opt_language = spread_field (opt_language base) (opt_language over),
      opt_autoStopOnSilence =
        spread_field (opt_autoStopOnSilence base) (opt_autoStopOnSilence over)\<rparr>"

text \<open>\<open>optionsRef.current.autoStopOnSilence?.enabled\<close> as a condition.\<close>

definition autoStop_enabled :: "SpeechToTextOptions \<Rightarrow> bool" where
  "autoStop_enabled opts =
     (case opt_autoStopOnSilence opts of None \<Rightarrow> False | Some a \<Rightarrow> enabled a)"

text \<open>
  The events of the recognition engine. \<open>result[0]\<close> is typed
  \<open>SpeechRecognitionAlternative\<close> by the index signature of
  \<open>SpeechRecognitionResult\<close>, so every result carries its first alternative;
  \<open>confidence\<close> is passed through and never computed with.
\<close>

record SpeechRecognitionAlternative =
  alt_transcript :: string
  alt_confidence :: real

record SpeechRecognitionResult =
  first_alternative :: SpeechRecognitionAlternative
  rr_isFinal :: bool

record SpeechRecognitionEvent =
  resultIndex :: nat
  ev_results :: "SpeechRecognitionResult list"

record SpeechToTextResult =
  res_transcript :: string
  res_confidence :: real
  res_isFinal :: bool
  res_timestamp :: nat

record browserInfo_t =
  browserName :: string
  reason :: string

record SpeechToTextStateError =
  code :: string
  message :: string
  name :: string
  browserInfo :: "browserInfo_t option"

record SpeechToTextState =
  isListening :: bool
  isSupported :: bool
  transcript :: string
  interimTranscript :: string
  finalTranscript :: string
  results :: "SpeechToTextResult list"
  error :: "SpeechToTextStateError option"
  isInitializing :: bool

text \<open>The configurable properties of a recognition instance.\<close>

record SpeechRecognition =
  rec_continuous :: bool
  rec_interimResults :: bool
  rec_maxAlternatives :: nat
  lang :: string

datatype command = Start | Stop | Abort

record transcript_ref =
  final :: string
  interim :: string

text \<open>
  The hook: the React state, the five refs, and the part of the host the hook
  acts on. \<open>timers\<close> are the host's pending timeouts (handle and delay);
  \<open>nextTimer\<close> is the last handle the host gave out. Handles are positive integers,
  so a stored handle is always truthy and \<open>silenceTimeoutRef\<close> is \<open>None\<close> exactly
  when the ref holds \<open>null\<close>. \<open>commands\<close> logs the calls of \<open>start()\<close>,
  \<open>stop()\<close> and \<open>abort()\<close> made on the recognition instance, \<open>autoStopCalls\<close>
  the arguments \<open>onAutoStop\<close> was called with.
\<close>

record hook =
  state :: SpeechToTextState
  recognitionRef :: "SpeechRecognition option"
  lastSpeechTimeRef :: "nat option"
  silenceTimeoutRef :: "nat option"
  transcriptRef :: transcript_ref
  optionsRef :: SpeechToTextOptions
  timers :: "(nat \<times> nat option) list"
  nextTimer :: nat
  commands :: "command list"
  autoStopCalls :: "string list"

definition setState :: "(SpeechToTextState \<Rightarrow> SpeechToTextState) \<Rightarrow> hook \<Rightarrow> hook" where
  "setState f h = h\<lparr>state := f (state h)\<rparr>"

section \<open>The silence watchdog\<close>

definition clearTimeout :: "nat \<Rightarrow> (nat \<times> nat option) list \<Rightarrow> (nat \<times> nat option) list" where
  "clearTimeout handle ts = filter (\<lambda>t. fst t \<noteq> handle) ts"

text \<open>
  \<open>if (silenceTimeoutRef.current) { clearTimeout(...); silenceTimeoutRef.current = null }\<close>,
  the block shared by \<open>resetSilenceTimeout\<close>, \<open>onend\<close>, \<open>stopListening\<close>,
  \<open>abortListening\<close> and the cleanups.
\<close>

definition clearSilenceTimeout :: "hook \<Rightarrow> hook" where
  "clearSilenceTimeout h =
     (case silenceTimeoutRef h of
        None \<Rightarrow> h
      | Some handle \<Rightarrow>
          h\<lparr>timers := clearTimeout handle (timers h), silenceTimeoutRef := None\<rparr>)"

definition resetSilenceTimeout :: "hook \<Rightarrow> hook" where
  "resetSilenceTimeout h =
     (let h1 = clearSilenceTimeout h in
      if autoStop_enabled (optionsRef h1) then
        (let handle = Suc (nextTimer h1);
             delay = (case opt_autoStopOnSilence (optionsRef h1) of
                        None \<Rightarrow> None
                      | Some a \<Rightarrow> silenceDuration a)
         in h1\<lparr>timers := timers h1 @ [(handle, delay)], nextTimer := handle,
                silenceTimeoutRef := Some handle\<rparr>)
      else h1)"

text \<open>The callback given to \<open>setTimeout\<close>; it reads the refs when it fires.\<close>

definition silenceTimeoutCallback :: "hook \<Rightarrow> hook" where
  "silenceTimeoutCallback h =
     (let h1 = (if recognitionRef h \<noteq> None then h\<lparr>commands := commands h @ [Stop]\<rparr> else h) in
      if (case opt_autoStopOnSilence (optionsRef h1) of None \<Rightarrow> False | Some a \<Rightarrow> onAutoStop a)
         \<and> final (transcriptRef h1) \<noteq> []
      then h1\<lparr>autoStopCalls := autoStopCalls h1 @ [final (transcriptRef h1)]\<rparr>
      else h1)"

text \<open>The host fires a pending timeout: it leaves the pending set, its callback runs.\<close>

definition fireTimeout :: "nat \<Rightarrow> hook \<Rightarrow> hook" where
  "fireTimeout handle h =
     (if handle \<in> fst ` set (timers h) then
        silenceTimeoutCallback (h\<lparr>timers := clearTimeout handle (timers h)\<rparr>)
      else h)"

section \<open>Initialisation\<close>

definition not_supported_error :: "string \<Rightarrow> string \<Rightarrow> string \<Rightarrow> SpeechToTextStateError" where
  "not_supported_error msg bname why =
     \<lparr>code = ''NOT_SUPPORTED'', message = msg, name = ''NotSupportedError'',
      browserInfo = Some \<lparr>browserName = bname, reason = why\<rparr>\<rparr>"

text \<open>
  \<open>initializeSpeechRecognition\<close> returns the new instance (or \<open>null\<close>) and the
  hook after its \<open>setState\<close>. The only statement of its \<open>try\<close> block that can
  throw is the constructor call. The four event handlers it installs are the
  functions \<open>onstart\<close>, \<open>onresult\<close>, \<open>onerror\<close> and \<open>onend\<close> below.
\<close>

definition initializeSpeechRecognition :: "environment \<Rightarrow> hook \<Rightarrow> SpeechRecognition option \<times> hook" where
  "initializeSpeechRecognition env h =
     (let browserCheck = checkBrowserCompatibility env in
      if \<not> chk_isSupported browserCheck then
        (None,
         setState (\<lambda>prev. prev\<lparr>isSupported := False, isInitializing := False,
            error := Some (not_supported_error (chk_reason browserCheck)
                             (chk_browserName browserCheck) (chk_reason browserCheck))\<rparr>) h)
      else
        (case getBrowserSpeechRecognition env of
           None \<Rightarrow>
             (None,
              setState (\<lambda>prev. prev\<lparr>isSupported := False, isInitializing := False,
                 error := Some (not_supported_error
                                  ''Speech recognition is not supported in this browser''
                                  (chk_browserName browserCheck)
                                  ''Web Speech API constructor not found'')\<rparr>) h)
         | Some Constructs \<Rightarrow>
             (Some \<lparr>rec_continuous = (case opt_continuous (optionsRef h) of Some b \<Rightarrow> b | None \<Rightarrow> True),
                    rec_interimResults =
                      (case opt_interimResults (optionsRef h) of Some b \<Rightarrow> b | None \<Rightarrow> True),
                    rec_maxAlternatives =
                      (case opt_maxAlternatives (optionsRef h) of Some n \<Rightarrow> n | None \<Rightarrow> 1),
                    lang = (case opt_language (optionsRef h) of Some l \<Rightarrow> l | None \<Rightarrow> ''en-US'')\<rparr>,
              setState (\<lambda>prev. prev\<lparr>isSupported := True, isInitializing := False\<rparr>) h)
         | Some (ThrowsError msg) \<Rightarrow>
             (None,
              setState (\<lambda>prev. prev\<lparr>isSupported := False, isInitializing := False,
                 error := Some \<lparr>code = ''INITIALIZATION_ERROR'', message = msg,
                                name = ''InitializationError'', browserInfo = None\<rparr>\<rparr>) h)
         | Some ThrowsValue \<Rightarrow>
             (None,
              setState (\<lambda>prev. prev\<lparr>isSupported := False, isInitializing := False,
                 error := Some \<lparr>code = ''INITIALIZATION_ERROR'',
                                message = ''Failed to initialize speech recognition'',
                                name = ''InitializationError'', browserInfo = None\<rparr>\<rparr>) h)))"

section \<open>The event handlers of the recognition instance\<close>

definition onstart :: "nat \<Rightarrow> hook \<Rightarrow> hook" where
  "onstart now h =
     resetSilenceTimeout
       (setState (\<lambda>prev. prev\<lparr>isListening := True, error := None\<rparr>)
          (h\<lparr>lastSpeechTimeRef := Some now\<rparr>))"

text \<open>
  The \<open>for\<close> loop of \<open>onresult\<close>, from \<open>i\<close> up to \<open>event.results.length\<close>.
  \<open>clock i\<close> is what \<open>new Date()\<close> returns while entry \<open>i\<close> is processed.
\<close>

function onresult_loop ::
  "SpeechRecognitionResult list \<Rightarrow> (nat \<Rightarrow> nat) \<Rightarrow> nat \<Rightarrow>
   string \<times> string \<times> SpeechToTextResult list \<Rightarrow> string \<times> string \<times> SpeechToTextResult list" where
  "onresult_loop rs clock i (interimT, finalT, acc) =
     (if i < length rs then
        onresult_loop rs clock (Suc i)
          (if rr_isFinal (rs ! i) then interimT
           else interimT @ alt_transcript (first_alternative (rs ! i)),
           if rr_isFinal (rs ! i) then finalT @ alt_transcript (first_alternative (rs ! i))
           else finalT,
           acc @ [\<lparr>res_transcript = alt_transcript (first_alternative (rs ! i)),
                   res_confidence = alt_confidence (first_alternative (rs ! i)),
                   res_isFinal = rr_isFinal (rs ! i),
                   res_timestamp = clock i\<rparr>])
      else (interimT, finalT, acc))"
  by pat_completeness auto
termination
  by (relation "measure (\<lambda>(rs, clock, i, a). length rs - i)") auto

declare onresult_loop.simps [simp del]

definition onresult :: "SpeechRecognitionEvent \<Rightarrow> (nat \<Rightarrow> nat) \<Rightarrow> hook \<Rightarrow> hook" where
  "onresult event clock h =
     (let h1 = resetSilenceTimeout h in
      case onresult_loop (ev_results event) clock (resultIndex event) ([], [], []) of
        (interimT, finalT, rs) \<Rightarrow>
          (setState (\<lambda>prev. prev\<lparr>transcript := finalT @ interimT,
                                 interimTranscript := interimT,
                                 finalTranscript := finalTranscript prev @ finalT,
                                 results := results prev @ rs\<rparr>) h1)
          \<lparr>transcriptRef :=
             \<lparr>final = finalTranscript (state h1) @ finalT, interim = interimT\<rparr>\<rparr>)"

definition errorMessage_of :: "string \<Rightarrow> string" where
  "errorMessage_of raw =
     (if raw = ''no-speech'' then ''No speech was detected''
      else if raw = ''audio-capture'' then ''Audio capture failed''
      else if raw = ''not-allowed'' then ''Permission to use microphone was denied''
      else if raw = ''network'' then ''Network error occurred''
      else if raw = ''service-not-allowed'' then ''Speech recognition service is not allowed''
      else if raw = ''bad-grammar'' then ''Grammar compilation failed''
      else if raw = ''language-not-supported'' then ''Language is not supported''
      else if raw = ''aborted'' then ''Speech recognition was aborted''
      else ''An unknown error occurred during speech recognition'')"

definition onerror :: "string \<Rightarrow> hook \<Rightarrow> hook" where
  "onerror raw h =
     setState (\<lambda>prev. prev\<lparr>isListening := False,
        error := Some \<lparr>code = str_replace (toUpperCase raw) ''-'' ''_'',
                       message = errorMessage_of raw,
                       name = ''SpeechRecognitionError'', browserInfo = None\<rparr>\<rparr>) h"

definition onend :: "hook \<Rightarrow> hook" where
  "onend h = setState (\<lambda>prev. prev\<lparr>isListening := False\<rparr>) (clearSilenceTimeout h)"

section \<open>The public operations\<close>

text \<open>
  What \<open>recognitionRef.current.start()\<close> does is the engine's choice: it returns,
  throws an \<open>Error\<close> with a message, or throws some other value. The call is
  logged in \<open>commands\<close> in each case. \<open>stop()\<close> and \<open>abort()\<close> return; the
  Web Speech API gives them no exception.
\<close>

datatype start_behaviour = Starts | StartThrowsError string | StartThrowsValue

definition applyOptions :: "SpeechToTextOptions \<Rightarrow> SpeechRecognition \<Rightarrow> SpeechRecognition" where
  "applyOptions opts r =
     r\<lparr>rec_continuous := (case opt_continuous opts of Some b \<Rightarrow> b | None \<Rightarrow> True),
       rec_interimResults := (case opt_interimResults opts of Some b \<Rightarrow> b | None \<Rightarrow> True),
       rec_maxAlternatives := (case opt_maxAlternatives opts of Some n \<Rightarrow> n | None \<Rightarrow> 1),
       lang := (case opt_language opts of Some l \<Rightarrow> l | None \<Rightarrow> ''en-US'')\<rparr>"

definition start_error :: "string \<Rightarrow> SpeechToTextStateError" where
  "start_error msg =
     \<lparr>code = ''START_ERROR'', message = msg, name = ''StartError'', browserInfo = None\<rparr>"

definition startListening ::
  "environment \<Rightarrow> SpeechToTextOptions option \<Rightarrow> start_behaviour \<Rightarrow> hook \<Rightarrow> hook" where
  "startListening env options engine h =
     (if \<not> isSupported (state h) then
        (let browserCheck = checkBrowserCompatibility env in
         setState (\<lambda>prev. prev\<lparr>error :=
            Some (not_supported_error ''Speech recognition is not supported''
                    (chk_browserName browserCheck) (chk_reason browserCheck))\<rparr>) h)
      else if isListening (state h) then h
      else
        (let h1 = (case options of
                     None \<Rightarrow> h
                   | Some over \<Rightarrow> h\<lparr>optionsRef := spread_options (optionsRef h) over\<rparr>);
             h2 = (case recognitionRef h1 of
                     Some r \<Rightarrow> h1
                   | None \<Rightarrow>
                       (case initializeSpeechRecognition env h1 of
                          (r, h') \<Rightarrow> h'\<lparr>recognitionRef := r\<rparr>))
         in case recognitionRef h2 of
              None \<Rightarrow> h2
            | Some r \<Rightarrow>
                (let h3 = h2\<lparr>recognitionRef := Some (applyOptions (optionsRef h2) r),
                             commands := commands h2 @ [Start]\<rparr>
                 in case engine of
                      Starts \<Rightarrow> h3
                    | StartThrowsError msg \<Rightarrow>
                        setState (\<lambda>prev. prev\<lparr>error := Some (start_error msg)\<rparr>) h3
                    | StartThrowsValue \<Rightarrow>
                        setState (\<lambda>prev. prev\<lparr>error :=
                           Some (start_error ''Failed to start speech recognition'')\<rparr>) h3)))"

definition stopListening :: "hook \<Rightarrow> hook" where
  "stopListening h =
     (if recognitionRef h \<noteq> None \<and> isListening (state h) then
        (let h1 = clearSilenceTimeout h in h1\<lparr>commands := commands h1 @ [Stop]\<rparr>)
      else h)"

definition abortListening :: "hook \<Rightarrow> hook" where
  "abortListening h =
     (if recognitionRef h \<noteq> None then
        (let h1 = clearSilenceTimeout h in h1\<lparr>commands := commands h1 @ [Abort]\<rparr>)
      else h)"

definition resetTranscript :: "hook \<Rightarrow> hook" where
  "resetTranscript h =
     setState (\<lambda>prev. prev\<lparr>transcript := [], interimTranscript := [],
                            finalTranscript := [], results := []\<rparr>)
       (h\<lparr>transcriptRef := \<lparr>final = [], interim = []\<rparr>\<rparr>)"

definition clearError :: "hook \<Rightarrow> hook" where
  "clearError h = setState (\<lambda>prev. prev\<lparr>error := None\<rparr>) h"

section \<open>Mounting, and runs of the hook\<close>

definition initial_state :: SpeechToTextState where
  "initial_state =
     \<lparr>isListening = False, isSupported = False, transcript = [], interimTranscript = [],
      finalTranscript = [], results = [], error = None, isInitializing = True\<rparr>"

text \<open>
  The first render and the mount effect, which stores the result of
  \<open>initializeSpeechRecognition\<close> in \<open>recognitionRef\<close>.
\<close>

definition first_render :: "SpeechToTextOptions option \<Rightarrow> hook" where
  "first_render initialOptions =
     \<lparr>state = initial_state, recognitionRef = None, lastSpeechTimeRef = None,
      silenceTimeoutRef = None, transcriptRef = \<lparr>final = [], interim = []\<rparr>,
      optionsRef = (case initialOptions of
                      None \<Rightarrow> DEFAULT_OPTIONS
                    | Some over \<Rightarrow> spread_options DEFAULT_OPTIONS over),
      timers = [], nextTimer = 0, commands = [], autoStopCalls = []\<rparr>"

definition mount :: "environment \<Rightarrow> SpeechToTextOptions option \<Rightarrow> hook" where
  "mount env initialOptions =
     (case initializeSpeechRecognition env (first_render initialOptions) of
        (r, h) \<Rightarrow> h\<lparr>recognitionRef := r\<rparr>)"

text \<open>The cleanups of the two effects, run in order when the component unmounts.\<close>

definition unmount :: "hook \<Rightarrow> hook" where
  "unmount h =
     (let h1 = (if recognitionRef h \<noteq> None
                then h\<lparr>commands := commands h @ [Abort], recognitionRef := None\<rparr> else h);
          h2 = clearSilenceTimeout h1;
          h3 = (if recognitionRef h2 \<noteq> None then h2\<lparr>commands := commands h2 @ [Abort]\<rparr> else h2)
      in clearSilenceTimeout h3)"

text \<open>
  Everything that can happen to a mounted hook: a call of a public operation, an
  event of the recognition engine, or a timeout firing. Each runs to completion,
  and the component has rendered again before the next one, so the operations
  read the current state. The engine's events reach the handlers only through an
  instance, and the hook's only instance is the one \<open>recognitionRef\<close> holds.
\<close>

datatype event =
    StartListening "SpeechToTextOptions option" start_behaviour
  | StopListening
  | AbortListening
  | ResetTranscript
  | ClearError
  | OnStart nat
  | OnResult SpeechRecognitionEvent "nat \<Rightarrow> nat"
  | OnError string
  | OnEnd
  | TimeoutFires nat

fun step :: "environment \<Rightarrow> event \<Rightarrow> hook \<Rightarrow> hook" where
  "step env (StartListening options engine) h = startListening env options engine h"
| "step env StopListening h = stopListening h"
| "step env AbortListening h = abortListening h"
| "step env ResetTranscript h = resetTranscript h"
| "step env ClearError h = clearError h"
| "step env (OnStart now) h = (if recognitionRef h = None then h else onstart now h)"
| "step env (OnResult ev clock) h = (if recognitionRef h = None then h else onresult ev clock h)"
| "step env (OnError raw) h = (if recognitionRef h = None then h else onerror raw h)"
| "step env OnEnd h = (if recognitionRef h = None then h else onend h)"
| "step env (TimeoutFires handle) h = fireTimeout handle h"

fun run :: "environment \<Rightarrow> event list \<Rightarrow> hook \<Rightarrow> hook" where
  "run env [] h = h"
| "run env (e # es) h = run env es (step env e h)"

section \<open>Reference notions for the properties\<close>

text \<open>
  What the accumulator is meant to compute from the entries of one event, as list
  functions: the texts of the final entries in order, the texts of the other
  entries in order, and one logged result per entry from index \<open>i\<close> on.
\<close>

definition final_texts :: "SpeechRecognitionResult list \<Rightarrow> string" where
  "final_texts rs =
     concat (map (\<lambda>r. alt_transcript (first_alternative r)) (filter rr_isFinal rs))"

definition interim_texts :: "SpeechRecognitionResult list \<Rightarrow> string" where
  "interim_texts rs =
     concat (map (\<lambda>r. alt_transcript (first_alternative r))
               (filter (\<lambda>r. \<not> rr_isFinal r) rs))"

definition logged_results ::
  "(nat \<Rightarrow> nat) \<Rightarrow> nat \<Rightarrow> SpeechRecognitionResult list \<Rightarrow> SpeechToTextResult list" where
  "logged_results clock i rs =
     map (\<lambda>j. \<lparr>res_transcript = alt_transcript (first_alternative (rs ! j)),
               res_confidence = alt_confidence (first_alternative (rs ! j)),
               res_isFinal = rr_isFinal (rs ! j),
               res_timestamp = clock j\<rparr>) [i..<length rs]"

text \<open>The watchdog is armed when the host has a timeout of the hook pending.\<close>

definition watchdog_armed :: "hook \<Rightarrow> bool" where
  "watchdog_armed h = (timers h \<noteq> [])"

text \<open>
  Two invariants of a mounted hook. Every pending timeout is the one whose handle
  \<open>silenceTimeoutRef\<close> holds; and without an instance the hook is not listening
  and nothing is pending, while with an instance \<open>isSupported\<close> is set.
\<close>

definition timers_owned :: "hook \<Rightarrow> bool" where
  "timers_owned h = list_all (\<lambda>t. silenceTimeoutRef h = Some (fst t)) (timers h)"

definition hook_inv :: "hook \<Rightarrow> bool" where
  "hook_inv h =
     (timers_owned h
      \<and> (recognitionRef h = None \<longrightarrow> \<not> isListening (state h) \<and> timers h = [])
      \<and> (recognitionRef h \<noteq> None \<longrightarrow> isSupported (state h)))"

text \<open>Concrete inputs for the examples: a Chrome with the prefixed constructor.\<close>

definition chrome :: environment where
  "chrome =
     Some \<lparr>userAgent = ''Mozilla/5.0 (X11; Linux x86_64) Chrome/120.0 Safari/537.36'',
           brave = False, win_SpeechRecognition = None,
           win_webkitSpeechRecognition = Some Constructs,
           win_mozSpeechRecognition = None, win_msSpeechRecognition = None\<rparr>"

definition silence_options :: SpeechToTextOptions where
  "silence_options =
     \<lparr>opt_continuous = None, opt_interimResults = None, opt_maxAlternatives = None,
      opt_language = None,
      opt_autoStopOnSilence =
        Some \<lparr>enabled = True, silenceDuration = Some 2000, onAutoStop = True\<rparr>\<rparr>"

definition language_override :: "string \<Rightarrow> SpeechToTextOptions" where
  "language_override l =
     \<lparr>opt_continuous = None, opt_interimResults = None, opt_maxAlternatives = None,
      opt_language = Some l, opt_autoStopOnSilence = None\<rparr>"

definition entry :: "string \<Rightarrow> real \<Rightarrow> bool \<Rightarrow> SpeechRecognitionResult" where
  "entry t c f = \<lparr>first_alternative = \<lparr>alt_transcript = t, alt_confidence = c\<rparr>, rr_isFinal = f\<rparr>"

definition hello_event :: SpeechRecognitionEvent where
  "hello_event = \<lparr>resultIndex = 0, ev_results = [entry ''hello '' 0.9 True]\<rparr>"

definition world_event :: SpeechRecognitionEvent where
  "world_event =
     \<lparr>resultIndex = 1, ev_results = [entry ''hello '' 0.9 True, entry ''world'' 0.8 True]\<rparr>"

section \<open>The loop of the result handler\<close>

lemma onresult_loop_eq:
  "onresult_loop rs clock i (interimT, finalT, acc) =
     (interimT @ interim_texts (drop i rs), finalT @ final_texts (drop i rs),
      acc @ logged_results clock i rs)"
proof (induction rs clock i "(interimT, finalT, acc)" arbitrary: interimT finalT acc
       rule: onresult_loop.induct)
  case (1 rs clock i interimT finalT acc)
  show ?case
  proof (cases "i < length rs")
    case True
    then have d: "drop i rs = rs ! i # drop (Suc i) rs"
      by (simp add: Cons_nth_drop_Suc)
    from True have u: "[i..<length rs] = i # [Suc i..<length rs]"
      by (simp add: upt_conv_Cons)
    show ?thesis
      using True "1.hyps"[OF True]
      by (subst onresult_loop.simps)
         (simp add: d u final_texts_def interim_texts_def logged_results_def)
  next
    case False
    then show ?thesis
      by (subst onresult_loop.simps)
         (simp add: final_texts_def interim_texts_def logged_results_def)
  qed
qed

section \<open>The watchdog's timeouts\<close>

lemma clearSilenceTimeout_frame [simp]:
  "state (clearSilenceTimeout h) = state h"
  "recognitionRef (clearSilenceTimeout h) = recognitionRef h"
  "optionsRef (clearSilenceTimeout h) = optionsRef h"
  "transcriptRef (clearSilenceTimeout h) = transcriptRef h"
  "lastSpeechTimeRef (clearSilenceTimeout h) = lastSpeechTimeRef h"
  "commands (clearSilenceTimeout h) = commands h"
  "autoStopCalls (clearSilenceTimeout h) = autoStopCalls h"
  "nextTimer (clearSilenceTimeout h) = nextTimer h"
  "silenceTimeoutRef (clearSilenceTimeout h) = None"
  by (simp_all add: clearSilenceTimeout_def split: option.splits)

lemma filter_owned_empty:
  "list_all (\<lambda>t. fst t = k) ts \<Longrightarrow> filter (\<lambda>t. fst t \<noteq> k) ts = []"
  by (induction ts) auto

lemma timers_clearSilenceTimeout:
  assumes "timers_owned h"
  shows "timers (clearSilenceTimeout h) = []"
proof (cases "silenceTimeoutRef h")
  case None
  with assms have "timers h = []"
    by (cases "timers h") (simp_all add: timers_owned_def)
  with None show ?thesis by (simp add: clearSilenceTimeout_def)
next
  case (Some k)
  with assms have "list_all (\<lambda>t. fst t = k) (timers h)"
    by (auto simp: timers_owned_def list_all_iff)
  then show ?thesis
    using Some by (simp add: clearSilenceTimeout_def clearTimeout_def filter_owned_empty)
qed

lemma timers_owned_clearSilenceTimeout:
  "timers_owned h \<Longrightarrow> timers_owned (clearSilenceTimeout h)"
  using timers_clearSilenceTimeout[of h] by (simp add: timers_owned_def)

lemma resetSilenceTimeout_frame [simp]:
  "state (resetSilenceTimeout h) = state h"
  "recognitionRef (resetSilenceTimeout h) = recognitionRef h"
  "optionsRef (resetSilenceTimeout h) = optionsRef h"
  "transcriptRef (resetSilenceTimeout h) = transcriptRef h"
  "lastSpeechTimeRef (resetSilenceTimeout h) = lastSpeechTimeRef h"
  "commands (resetSilenceTimeout h) = commands h"
  "autoStopCalls (resetSilenceTimeout h) = autoStopCalls h"
  by (simp_all add: resetSilenceTimeout_def Let_def)

lemma timers_resetSilenceTimeout:
  assumes "timers_owned h"
  shows "timers (resetSilenceTimeout h) \<noteq> [] \<longleftrightarrow> autoStop_enabled (optionsRef h)"
  using timers_clearSilenceTimeout[OF assms]
  by (simp add: resetSilenceTimeout_def Let_def)

lemma timers_owned_resetSilenceTimeout:
  "timers_owned h \<Longrightarrow> timers_owned (resetSilenceTimeout h)"
  using timers_clearSilenceTimeout[of h]
  by (simp add: resetSilenceTimeout_def Let_def timers_owned_def)

section \<open>Frame and invariant lemmas for the handlers and operations\<close>

lemma setState_frame [simp]:
  "state (setState f h) = f (state h)"
  "recognitionRef (setState f h) = recognitionRef h"
  "optionsRef (setState f h) = optionsRef h"
  "transcriptRef (setState f h) = transcriptRef h"
  "lastSpeechTimeRef (setState f h) = lastSpeechTimeRef h"
  "silenceTimeoutRef (setState f h) = silenceTimeoutRef h"
  "timers (setState f h) = timers h"
  "nextTimer (setState f h) = nextTimer h"
  "commands (setState f h) = commands h"
  "autoStopCalls (setState f h) = autoStopCalls h"
  by (simp_all add: setState_def)

lemma timers_owned_cong:
  "timers h' = timers h \<Longrightarrow> silenceTimeoutRef h' = silenceTimeoutRef h \<Longrightarrow>
   timers_owned h' = timers_owned h"
  by (simp add: timers_owned_def)

lemma onstart_state:
  "state (onstart now h) = (state h)\<lparr>isListening := True, error := None\<rparr>"
  by (simp add: onstart_def)

lemma onstart_frame [simp]:
  "recognitionRef (onstart now h) = recognitionRef h"
  "optionsRef (onstart now h) = optionsRef h"
  "transcriptRef (onstart now h) = transcriptRef h"
  "commands (onstart now h) = commands h"
  "autoStopCalls (onstart now h) = autoStopCalls h"
  by (simp_all add: onstart_def)

lemma onresult_state:
  "state (onresult ev clock h) =
     (state h)\<lparr>transcript := final_texts (drop (resultIndex ev) (ev_results ev))
                              @ interim_texts (drop (resultIndex ev) (ev_results ev)),
               interimTranscript := interim_texts (drop (resultIndex ev) (ev_results ev)),
               finalTranscript := finalTranscript (state h)
                                   @ final_texts (drop (resultIndex ev) (ev_results ev)),
               results := results (state h)
                            @ logged_results clock (resultIndex ev) (ev_results ev)\<rparr>"
  by (simp add: onresult_def onresult_loop_eq Let_def)

lemma onresult_frame [simp]:
  "recognitionRef (onresult ev clock h) = recognitionRef h"
  "optionsRef (onresult ev clock h) = optionsRef h"
  "commands (onresult ev clock h) = commands h"
  "autoStopCalls (onresult ev clock h) = autoStopCalls h"
  "timers (onresult ev clock h) = timers (resetSilenceTimeout h)"
  "silenceTimeoutRef (onresult ev clock h) = silenceTimeoutRef (resetSilenceTimeout h)"
  by (simp_all add: onresult_def onresult_loop_eq Let_def)

lemma onerror_state:
  "state (onerror raw h) =
     (state h)\<lparr>isListening := False,
               error := Some \<lparr>code = str_replace (toUpperCase raw) ''-'' ''_'',
                              message = errorMessage_of raw,
                              name = ''SpeechRecognitionError'', browserInfo = None\<rparr>\<rparr>"
  by (simp add: onerror_def)

lemma onerror_frame [simp]:
  "recognitionRef (onerror raw h) = recognitionRef h"
  "optionsRef (onerror raw h) = optionsRef h"
  "transcriptRef (onerror raw h) = transcriptRef h"
  "commands (onerror raw h) = commands h"
  "autoStopCalls (onerror raw h) = autoStopCalls h"
  "timers (onerror raw h) = timers h"
  "silenceTimeoutRef (onerror raw h) = silenceTimeoutRef h"
  by (simp_all add: onerror_def)

lemma onend_state: "state (onend h) = (state h)\<lparr>isListening := False\<rparr>"
  by (simp add: onend_def)

lemma onend_frame [simp]:
  "recognitionRef (onend h) = recognitionRef h"
  "optionsRef (onend h) = optionsRef h"
  "transcriptRef (onend h) = transcriptRef h"
  "commands (onend h) = commands h"
  "autoStopCalls (onend h) = autoStopCalls h"
  "silenceTimeoutRef (onend h) = None"
  by (simp_all add: onend_def)

lemma timers_owned_onstart: "timers_owned h \<Longrightarrow> timers_owned (onstart now h)"
  unfolding onstart_def
  by (rule timers_owned_resetSilenceTimeout) (simp add: timers_owned_def)

lemma timers_owned_onresult: "timers_owned h \<Longrightarrow> timers_owned (onresult ev clock h)"
  using timers_owned_resetSilenceTimeout[of h] by (simp add: timers_owned_def)

lemma timers_owned_onerror: "timers_owned h \<Longrightarrow> timers_owned (onerror raw h)"
  by (simp add: timers_owned_def)

lemma timers_onend: "timers_owned h \<Longrightarrow> timers (onend h) = []"
  by (simp add: onend_def timers_clearSilenceTimeout)

lemma hook_inv_onstart:
  "hook_inv h \<Longrightarrow> recognitionRef h \<noteq> None \<Longrightarrow> hook_inv (onstart now h)"
  by (auto simp: hook_inv_def timers_owned_onstart onstart_state)

lemma hook_inv_onresult:
  "hook_inv h \<Longrightarrow> recognitionRef h \<noteq> None \<Longrightarrow> hook_inv (onresult ev clock h)"
  by (auto simp: hook_inv_def timers_owned_onresult onresult_state)

lemma hook_inv_onerror:
  "hook_inv h \<Longrightarrow> recognitionRef h \<noteq> None \<Longrightarrow> hook_inv (onerror raw h)"
  by (auto simp: hook_inv_def timers_owned_onerror onerror_state)

lemma hook_inv_onend:
  "hook_inv h \<Longrightarrow> recognitionRef h \<noteq> None \<Longrightarrow> hook_inv (onend h)"
  by (auto simp: hook_inv_def timers_onend onend_state timers_owned_def)

lemma stopListening_frame [simp]:
  "state (stopListening h) = state h"
  "recognitionRef (stopListening h) = recognitionRef h"
  "optionsRef (stopListening h) = optionsRef h"
  "transcriptRef (stopListening h) = transcriptRef h"
  "autoStopCalls (stopListening h) = autoStopCalls h"
  by (simp_all add: stopListening_def Let_def)

lemma abortListening_frame [simp]:
  "state (abortListening h) = state h"
  "recognitionRef (abortListening h) = recognitionRef h"
  "optionsRef (abortListening h) = optionsRef h"
  "transcriptRef (abortListening h) = transcriptRef h"
  "lastSpeechTimeRef (abortListening h) = lastSpeechTimeRef h"
  "autoStopCalls (abortListening h) = autoStopCalls h"
  by (simp_all add: abortListening_def Let_def)

lemma hook_inv_stopListening: "hook_inv h \<Longrightarrow> hook_inv (stopListening h)"
  using timers_clearSilenceTimeout[of h]
  by (simp add: hook_inv_def) (simp add: stopListening_def Let_def timers_owned_def)

lemma hook_inv_abortListening: "hook_inv h \<Longrightarrow> hook_inv (abortListening h)"
  using timers_clearSilenceTimeout[of h]
  by (simp add: hook_inv_def) (simp add: abortListening_def Let_def timers_owned_def)

lemma resetTranscript_state:
  "state (resetTranscript h) =
     (state h)\<lparr>transcript := [], interimTranscript := [], finalTranscript := [], results := []\<rparr>"
  by (simp add: resetTranscript_def)

lemma resetTranscript_frame [simp]:
  "recognitionRef (resetTranscript h) = recognitionRef h"
  "optionsRef (resetTranscript h) = optionsRef h"
  "lastSpeechTimeRef (resetTranscript h) = lastSpeechTimeRef h"
  "silenceTimeoutRef (resetTranscript h) = silenceTimeoutRef h"
  "timers (resetTranscript h) = timers h"
  "nextTimer (resetTranscript h) = nextTimer h"
  "commands (resetTranscript h) = commands h"
  "autoStopCalls (resetTranscript h) = autoStopCalls h"
  "transcriptRef (resetTranscript h) = \<lparr>final = [], interim = []\<rparr>"
  by (simp_all add: resetTranscript_def)

lemma clearError_frame [simp]:
  "state (clearError h) = (state h)\<lparr>error := None\<rparr>"
  "recognitionRef (clearError h) = recognitionRef h"
  "optionsRef (clearError h) = optionsRef h"
  "silenceTimeoutRef (clearError h) = silenceTimeoutRef h"
  "timers (clearError h) = timers h"
  "commands (clearError h) = commands h"
  by (simp_all add: clearError_def)

lemma hook_inv_resetTranscript: "hook_inv h \<Longrightarrow> hook_inv (resetTranscript h)"
  by (simp add: hook_inv_def timers_owned_def resetTranscript_state)

lemma hook_inv_clearError: "hook_inv h \<Longrightarrow> hook_inv (clearError h)"
  by (simp add: hook_inv_def timers_owned_def)

lemma silenceTimeoutCallback_frame [simp]:
  "state (silenceTimeoutCallback h) = state h"
  "recognitionRef (silenceTimeoutCallback h) = recognitionRef h"
  "optionsRef (silenceTimeoutCallback h) = optionsRef h"
  "transcriptRef (silenceTimeoutCallback h) = transcriptRef h"
  "silenceTimeoutRef (silenceTimeoutCallback h) = silenceTimeoutRef h"
  "timers (silenceTimeoutCallback h) = timers h"
  by (simp_all add: silenceTimeoutCallback_def Let_def)

lemma fireTimeout_frame [simp]:
  "state (fireTimeout k h) = state h"
  "recognitionRef (fireTimeout k h) = recognitionRef h"
  "optionsRef (fireTimeout k h) = optionsRef h"
  "transcriptRef (fireTimeout k h) = transcriptRef h"
  "silenceTimeoutRef (fireTimeout k h) = silenceTimeoutRef h"
  by (simp_all add: fireTimeout_def)

lemma timers_fireTimeout:
  "timers (fireTimeout k h) = (if k \<in> fst ` set (timers h) then clearTimeout k (timers h) else timers h)"
  by (simp add: fireTimeout_def)

lemma hook_inv_fireTimeout: "hook_inv h \<Longrightarrow> hook_inv (fireTimeout k h)"
  by (auto simp: hook_inv_def timers_owned_def timers_fireTimeout clearTimeout_def list_all_iff)

section \<open>Initialisation, starting, and the invariant along every run\<close>

lemma initializeSpeechRecognition_frame:
  "recognitionRef (snd (initializeSpeechRecognition env h)) = recognitionRef h"
  "optionsRef (snd (initializeSpeechRecognition env h)) = optionsRef h"
  "transcriptRef (snd (initializeSpeechRecognition env h)) = transcriptRef h"
  "lastSpeechTimeRef (snd (initializeSpeechRecognition env h)) = lastSpeechTimeRef h"
  "silenceTimeoutRef (snd (initializeSpeechRecognition env h)) = silenceTimeoutRef h"
  "timers (snd (initializeSpeechRecognition env h)) = timers h"
  "nextTimer (snd (initializeSpeechRecognition env h)) = nextTimer h"
  "commands (snd (initializeSpeechRecognition env h)) = commands h"
  "autoStopCalls (snd (initializeSpeechRecognition env h)) = autoStopCalls h"
  by (simp_all add: initializeSpeechRecognition_def Let_def
        split: option.splits constructor_behaviour.splits)

lemma initializeSpeechRecognition_transcripts:
  "transcript (state (snd (initializeSpeechRecognition env h))) = transcript (state h)"
  "interimTranscript (state (snd (initializeSpeechRecognition env h))) = interimTranscript (state h)"
  "finalTranscript (state (snd (initializeSpeechRecognition env h))) = finalTranscript (state h)"
  "results (state (snd (initializeSpeechRecognition env h))) = results (state h)"
  "isListening (state (snd (initializeSpeechRecognition env h))) = isListening (state h)"
  by (simp_all add: initializeSpeechRecognition_def Let_def
        split: option.splits constructor_behaviour.splits)

lemma initializeSpeechRecognition_supported:
  "isSupported (state (snd (initializeSpeechRecognition env h))) \<longleftrightarrow>
   fst (initializeSpeechRecognition env h) \<noteq> None"
  by (simp add: initializeSpeechRecognition_def Let_def
        split: option.splits constructor_behaviour.splits)


lemma startListening_while_listening:
  "isSupported (state h) \<Longrightarrow> isListening (state h) \<Longrightarrow> startListening env options engine h = h"
  by (simp add: startListening_def)

lemma startListening_timers [simp]:
  "timers (startListening env options engine h) = timers h"
  "silenceTimeoutRef (startListening env options engine h) = silenceTimeoutRef h"
  "nextTimer (startListening env options engine h) = nextTimer h"
  "transcriptRef (startListening env options engine h) = transcriptRef h"
  "lastSpeechTimeRef (startListening env options engine h) = lastSpeechTimeRef h"
  "autoStopCalls (startListening env options engine h) = autoStopCalls h"
  by (simp_all add: startListening_def Let_def case_prod_beta initializeSpeechRecognition_frame
        split: option.splits start_behaviour.splits)

lemma startListening_transcripts:
  "transcript (state (startListening env options engine h)) = transcript (state h)"
  "interimTranscript (state (startListening env options engine h)) = interimTranscript (state h)"
  "finalTranscript (state (startListening env options engine h)) = finalTranscript (state h)"
  "results (state (startListening env options engine h)) = results (state h)"
  "isListening (state (startListening env options engine h)) = isListening (state h)"
  by (simp_all add: startListening_def Let_def case_prod_beta
        initializeSpeechRecognition_transcripts split: option.splits start_behaviour.splits)


lemma startListening_keeps_instance:
  "recognitionRef (startListening env options engine h) = None \<Longrightarrow> recognitionRef h = None"
  by (simp add: startListening_def Let_def case_prod_beta initializeSpeechRecognition_frame
        split: option.splits start_behaviour.splits if_splits)

lemma startListening_supported:
  assumes "recognitionRef h \<noteq> None \<longrightarrow> isSupported (state h)"
    and "recognitionRef (startListening env options engine h) \<noteq> None"
  shows "isSupported (state (startListening env options engine h))"
  using assms
  by (simp add: startListening_def Let_def case_prod_beta initializeSpeechRecognition_frame
        initializeSpeechRecognition_supported
        split: option.splits start_behaviour.splits if_splits)

lemma hook_inv_startListening:
  assumes "hook_inv h"
  shows "hook_inv (startListening env options engine h)"
proof -
  have "timers_owned (startListening env options engine h)"
    using assms by (simp add: hook_inv_def timers_owned_def)
  moreover have "recognitionRef (startListening env options engine h) = None \<longrightarrow>
      \<not> isListening (state (startListening env options engine h))
      \<and> timers (startListening env options engine h) = []"
    using assms startListening_keeps_instance[of env options engine h]
    by (auto simp: hook_inv_def startListening_transcripts)
  moreover have "recognitionRef (startListening env options engine h) \<noteq> None \<longrightarrow>
      isSupported (state (startListening env options engine h))"
    using assms startListening_supported[of h env options engine]
    by (auto simp: hook_inv_def)
  ultimately show ?thesis by (simp add: hook_inv_def)
qed

lemma hook_inv_first_render: "hook_inv (first_render initialOptions)"
  by (simp add: hook_inv_def timers_owned_def first_render_def initial_state_def)

lemma hook_inv_mount: "hook_inv (mount env initialOptions)"
  using initializeSpeechRecognition_supported[of env "first_render initialOptions"]
  by (auto simp: mount_def case_prod_beta hook_inv_def timers_owned_def
        initializeSpeechRecognition_frame initializeSpeechRecognition_transcripts
        first_render_def initial_state_def)

lemma hook_inv_step: "hook_inv h \<Longrightarrow> hook_inv (step env e h)"
  by (cases e)
     (simp_all add: hook_inv_startListening hook_inv_stopListening hook_inv_abortListening
        hook_inv_resetTranscript hook_inv_clearError hook_inv_onstart hook_inv_onresult
        hook_inv_onerror hook_inv_onend hook_inv_fireTimeout)

lemma hook_inv_run: "hook_inv h \<Longrightarrow> hook_inv (run env es h)"
  by (induction es arbitrary: h) (simp_all add: hook_inv_step)

lemma hook_inv_reachable: "hook_inv (run env es (mount env initialOptions))"
  by (rule hook_inv_run) (rule hook_inv_mount)

section \<open>The transcript accumulator\<close>

text \<open>
  C5. The result handler processes exactly the entries from the event's result
  index onward: the texts of the final entries are appended, in order, to the
  prior final transcript; the interim transcript becomes the concatenation of
  this event's non-final texts, whatever it was before; and every processed
  entry, final or not, is appended to the results log.
\<close>

theorem onresult_accumulates_from_index:
  "finalTranscript (state (onresult ev clock h)) =
     finalTranscript (state h) @ final_texts (drop (resultIndex ev) (ev_results ev))
   \<and> interimTranscript (state (onresult ev clock h)) =
       interim_texts (drop (resultIndex ev) (ev_results ev))
   \<and> results (state (onresult ev clock h)) =
       results (state h) @ logged_results clock (resultIndex ev) (ev_results ev)"
  by (simp add: onresult_state)

text \<open>
  The scenario of an interim "hel" revised to a final "hello", both at index 0.
\<close>

lemma interim_then_final_scenario:
  "interimTranscript (state (run chrome
      [StartListening None Starts, OnStart 0,
       OnResult \<lparr>resultIndex = 0, ev_results = [entry ''hel'' 0.5 False]\<rparr> (\<lambda>i. 1000)]
      (mount chrome None))) = ''hel''
   \<and> finalTranscript (state (run chrome
      [StartListening None Starts, OnStart 0,
       OnResult \<lparr>resultIndex = 0, ev_results = [entry ''hel'' 0.5 False]\<rparr> (\<lambda>i. 1000),
       OnResult \<lparr>resultIndex = 0, ev_results = [entry ''hello'' 0.9 True]\<rparr> (\<lambda>i. 2000)]
      (mount chrome None))) = ''hello''
   \<and> interimTranscript (state (run chrome
      [StartListening None Starts, OnStart 0,
       OnResult \<lparr>resultIndex = 0, ev_results = [entry ''hel'' 0.5 False]\<rparr> (\<lambda>i. 1000),
       OnResult \<lparr>resultIndex = 0, ev_results = [entry ''hello'' 0.9 True]\<rparr> (\<lambda>i. 2000)]
      (mount chrome None))) = []"
  by code_simp

section \<open>Resetting the transcript\<close>

text \<open>
  C8. After \<open>resetTranscript\<close> the final, interim and combined transcripts are
  empty and the results log is empty; the listening, supported and initializing
  flags and the error are unchanged; and resetting twice gives the same hook as
  resetting once.
\<close>

theorem resetTranscript_clears_and_is_idempotent:
  "finalTranscript (state (resetTranscript h)) = []
   \<and> interimTranscript (state (resetTranscript h)) = []
   \<and> transcript (state (resetTranscript h)) = []
   \<and> results (state (resetTranscript h)) = []
   \<and> isListening (state (resetTranscript h)) = isListening (state h)
   \<and> isSupported (state (resetTranscript h)) = isSupported (state h)
   \<and> isInitializing (state (resetTranscript h)) = isInitializing (state h)
   \<and> error (state (resetTranscript h)) = error (state h)
   \<and> resetTranscript (resetTranscript h) = resetTranscript h"
  by (simp add: resetTranscript_def setState_def)

section \<open>Outside a browser\<close>

text \<open>
  C9. Without a global \<open>window\<close> the compatibility check reports no support with
  the non-empty reason "Not running in browser environment", and mounting the
  hook completes with no instance, \<open>isSupported\<close> false, \<open>isInitializing\<close> false
  and a \<open>NOT_SUPPORTED\<close> error carrying that reason.
\<close>

theorem no_window_is_not_supported:
  "checkBrowserCompatibility None =
     \<lparr>chk_isSupported = False, chk_browserName = ''Unknown'',
      chk_reason = ''Not running in browser environment''\<rparr>
   \<and> chk_reason (checkBrowserCompatibility None) \<noteq> []
   \<and> recognitionRef (mount None initialOptions) = None
   \<and> isSupported (state (mount None initialOptions)) = False
   \<and> isInitializing (state (mount None initialOptions)) = False
   \<and> error (state (mount None initialOptions)) =
       Some \<lparr>code = ''NOT_SUPPORTED'', message = ''Not running in browser environment'',
             name = ''NotSupportedError'',
             browserInfo = Some \<lparr>browserName = ''Unknown'',
                                  reason = ''Not running in browser environment''\<rparr>\<rparr>"
  by (simp add: checkBrowserCompatibility_def mount_def initializeSpeechRecognition_def
        not_supported_error_def)

section \<open>Starting a session\<close>

text \<open>
  C10. Starting never clears transcripts: \<open>startListening\<close> and the engine's
  start event leave the final, interim and combined transcripts and the results
  log as they were. The start event changes the listening flag and the error of
  the state and, besides, only the watchdog's bookkeeping (the timeout handle,
  the pending timeouts and the last-speech time).
\<close>

theorem start_keeps_transcripts:
  "finalTranscript (state (startListening env options engine h)) = finalTranscript (state h)
   \<and> interimTranscript (state (startListening env options engine h)) = interimTranscript (state h)
   \<and> transcript (state (startListening env options engine h)) = transcript (state h)
   \<and> results (state (startListening env options engine h)) = results (state h)
   \<and> state (onstart now h) = (state h)\<lparr>isListening := True, error := None\<rparr>
   \<and> recognitionRef (onstart now h) = recognitionRef h
   \<and> optionsRef (onstart now h) = optionsRef h
   \<and> transcriptRef (onstart now h) = transcriptRef h
   \<and> commands (onstart now h) = commands h
   \<and> autoStopCalls (onstart now h) = autoStopCalls h
   \<and> finalTranscript (state (onstart now (startListening env options engine h)))
       = finalTranscript (state h)
   \<and> interimTranscript (state (onstart now (startListening env options engine h)))
       = interimTranscript (state h)
   \<and> transcript (state (onstart now (startListening env options engine h)))
       = transcript (state h)
   \<and> results (state (onstart now (startListening env options engine h)))
       = results (state h)"
  by (simp add: startListening_transcripts onstart_state)


section \<open>Growth of the final transcript\<close>

lemma step_final_grows:
  "e \<noteq> ResetTranscript \<Longrightarrow>
   prefix (finalTranscript (state h)) (finalTranscript (state (step env e h)))"
  by (cases e) (simp_all add: startListening_transcripts onstart_state onresult_state
        onerror_state onend_state)

lemma run_final_grows:
  "ResetTranscript \<notin> set es \<Longrightarrow>
   prefix (finalTranscript (state h)) (finalTranscript (state (run env es h)))"
proof (induction es arbitrary: h)
  case Nil
  show ?case by simp
next
  case (Cons e es)
  from Cons.prems have "e \<noteq> ResetTranscript" and rest: "ResetTranscript \<notin> set es"
    by auto
  then have "prefix (finalTranscript (state h)) (finalTranscript (state (step env e h)))"
    by (simp add: step_final_grows)
  moreover have "prefix (finalTranscript (state (step env e h)))
      (finalTranscript (state (run env es (step env e h))))"
    by (rule Cons.IH[OF rest])
  ultimately show ?case
    by (auto intro: prefix_order.trans)
qed

text \<open>
  C6. Along every sequence of events without \<open>resetTranscript\<close> the final
  transcript only grows: its earlier value is a prefix of its later value, so
  only \<open>resetTranscript\<close> can shrink it. The interim transcript after a result
  event is the same whatever the hook was before: it depends only on the event.
\<close>

theorem final_transcript_grows_interim_replaced:
  "(ResetTranscript \<notin> set es \<longrightarrow>
      prefix (finalTranscript (state h)) (finalTranscript (state (run env es h))))
   \<and> prefix (finalTranscript (state h)) (finalTranscript (state (onresult ev clock h)))
   \<and> interimTranscript (state (onresult ev clock h)) =
       interimTranscript (state (onresult ev clock h'))"
  by (simp add: run_final_grows onresult_state)

theorem final_transcript_grows_witness:
  "ResetTranscript \<notin> set [OnResult \<lparr>resultIndex = 1, ev_results = [entry ''hello '' 0.9 True, entry ''world'' 0.8 True, entry ''!'' 0.5 False]\<rparr> (\<lambda>i. 2000), OnEnd]
   \<and> finalTranscript (state (run chrome [OnResult \<lparr>resultIndex = 0, ev_results = [entry ''hello '' 0.9 True]\<rparr> (\<lambda>i. 1000)] (mount chrome None))) = ''hello ''
   \<and> prefix ''hello ''
        (finalTranscript (state (run chrome
           [OnResult \<lparr>resultIndex = 1, ev_results = [entry ''hello '' 0.9 True, entry ''world'' 0.8 True, entry ''!'' 0.5 False]\<rparr> (\<lambda>i. 2000), OnEnd]
           (run chrome [OnResult \<lparr>resultIndex = 0, ev_results = [entry ''hello '' 0.9 True]\<rparr> (\<lambda>i. 1000)] (mount chrome None)))))"
proof -
  have a: "ResetTranscript \<notin> set [OnResult \<lparr>resultIndex = 1, ev_results = [entry ''hello '' 0.9 True, entry ''world'' 0.8 True, entry ''!'' 0.5 False]\<rparr> (\<lambda>i. 2000), OnEnd]"
    by simp
  have b: "finalTranscript (state (run chrome [OnResult \<lparr>resultIndex = 0, ev_results = [entry ''hello '' 0.9 True]\<rparr> (\<lambda>i. 1000)] (mount chrome None))) = ''hello ''"
    by code_simp
  from final_transcript_grows_interim_replaced
         [of "[OnResult \<lparr>resultIndex = 1, ev_results = [entry ''hello '' 0.9 True, entry ''world'' 0.8 True, entry ''!'' 0.5 False]\<rparr> (\<lambda>i. 2000), OnEnd]"
             "run chrome [OnResult \<lparr>resultIndex = 0, ev_results = [entry ''hello '' 0.9 True]\<rparr> (\<lambda>i. 1000)] (mount chrome None)"
             chrome]
  show ?thesis using a b by simp
qed

section \<open>Starting while listening\<close>

text \<open>
  C7. While the hook is listening, \<open>startListening\<close> changes nothing, with or
  without an options override and whatever the engine would answer: no start
  command is issued, and the state, the working options and the instance's
  configuration stay as they are. This holds in every supported state, and in
  every state a mounted hook can reach, where listening implies supported.
\<close>

theorem startListening_while_listening_is_noop:
  fixes env es initialOptions
  defines "r \<equiv> run env es (mount env initialOptions)"
  shows
  "(isSupported (state h) \<and> isListening (state h) \<longrightarrow>
      startListening env' options engine h = h)
   \<and> (isListening (state r) \<longrightarrow> startListening env options engine r = r)"
proof -
  have "isListening (state r) \<longrightarrow> isSupported (state r)"
    unfolding r_def using hook_inv_reachable[of env es initialOptions]
    by (auto simp: hook_inv_def)
  then show ?thesis
    by (auto simp: startListening_while_listening)
qed

theorem startListening_while_listening_witness:
  "isListening (state (run chrome [StartListening None Starts, OnStart 0] (mount chrome None)))
   \<and> startListening chrome (Some (language_override ''fr-FR'')) Starts
        (run chrome [StartListening None Starts, OnStart 0] (mount chrome None))
       = run chrome [StartListening None Starts, OnStart 0] (mount chrome None)
   \<and> commands (startListening chrome (Some (language_override ''fr-FR'')) Starts
        (run chrome [StartListening None Starts, OnStart 0] (mount chrome None))) = [Start]"
proof -
  have l: "isListening (state (run chrome [StartListening None Starts, OnStart 0] (mount chrome None)))"
    by code_simp
  have c: "commands (run chrome [StartListening None Starts, OnStart 0] (mount chrome None)) = [Start]"
    by code_simp
  from startListening_while_listening_is_noop
         [where env = chrome and es = "[StartListening None Starts, OnStart 0]"
            and initialOptions = None
            and options = "Some (language_override ''fr-FR'')" and engine = Starts]
  show ?thesis using l c by simp
qed

section \<open>The combined transcript\<close>

lemma onresult_transcript:
  "transcript (state (onresult ev clock h)) =
     final_texts (drop (resultIndex ev) (ev_results ev))
     @ interim_texts (drop (resultIndex ev) (ev_results ev))"
  by (simp add: onresult_state)

text \<open>
  C1. The combined transcript is meant to be the final transcript followed by
  the interim transcript. The handler builds it from this event's final texts
  only: after a first event finalising "hello " and a second finalising "world",
  the final transcript is "hello world" and the combined transcript is "world".
\<close>

theorem combined_transcript_drops_prior_final:
  "finalTranscript (state (run chrome
      [StartListening None Starts, OnStart 0, OnResult hello_event (\<lambda>i. 1000),
       OnResult world_event (\<lambda>i. 2000)] (mount chrome None))) = ''hello world''
   \<and> interimTranscript (state (run chrome
      [StartListening None Starts, OnStart 0, OnResult hello_event (\<lambda>i. 1000),
       OnResult world_event (\<lambda>i. 2000)] (mount chrome None))) = []
   \<and> transcript (state (run chrome
      [StartListening None Starts, OnStart 0, OnResult hello_event (\<lambda>i. 1000),
       OnResult world_event (\<lambda>i. 2000)] (mount chrome None))) = ''world''
   \<and> transcript (state (run chrome
      [StartListening None Starts, OnStart 0, OnResult hello_event (\<lambda>i. 1000),
       OnResult world_event (\<lambda>i. 2000)] (mount chrome None)))
     \<noteq> finalTranscript (state (run chrome
      [StartListening None Starts, OnStart 0, OnResult hello_event (\<lambda>i. 1000),
       OnResult world_event (\<lambda>i. 2000)] (mount chrome None)))
       @ interimTranscript (state (run chrome
      [StartListening None Starts, OnStart 0, OnResult hello_event (\<lambda>i. 1000),
       OnResult world_event (\<lambda>i. 2000)] (mount chrome None)))"
  by code_simp

section \<open>Error codes\<close>

lemma known_error_codes:
  "map (\<lambda>raw. str_replace (toUpperCase raw) ''-'' ''_'')
     [''no-speech'', ''audio-capture'', ''not-allowed'', ''network'', ''bad-grammar'',
      ''aborted'', ''service-not-allowed'', ''language-not-supported'']
   = [''NO_SPEECH'', ''AUDIO_CAPTURE'', ''NOT_ALLOWED'', ''NETWORK'', ''BAD_GRAMMAR'',
      ''ABORTED'', ''SERVICE_NOT-ALLOWED'', ''LANGUAGE_NOT-SUPPORTED'']"
  by code_simp

text \<open>
  C2. The recorded code is meant to be the raw code in upper case with every
  hyphen an underscore. The handler replaces the first hyphen only: the raw
  codes \<open>service-not-allowed\<close> and \<open>language-not-supported\<close> are recorded with
  their second hyphen left in place.
\<close>

theorem multi_hyphen_error_code:
  "error (state (run chrome
      [StartListening None Starts, OnStart 0, OnError ''service-not-allowed'']
      (mount chrome None))) =
     Some \<lparr>code = ''SERVICE_NOT-ALLOWED'',
           message = ''Speech recognition service is not allowed'',
           name = ''SpeechRecognitionError'', browserInfo = None\<rparr>
   \<and> error (state (run chrome
      [StartListening None Starts, OnStart 0, OnError ''language-not-supported'']
      (mount chrome None))) =
     Some \<lparr>code = ''LANGUAGE_NOT-SUPPORTED'', message = ''Language is not supported'',
           name = ''SpeechRecognitionError'', browserInfo = None\<rparr>
   \<and> upper_snake ''service-not-allowed'' = ''SERVICE_NOT_ALLOWED''
   \<and> upper_snake ''language-not-supported'' = ''LANGUAGE_NOT_SUPPORTED''"
  by code_simp

section \<open>Aborting\<close>

lemma timers_abortListening_reachable:
  "timers (abortListening (run env es (mount env initialOptions))) = []"
  using hook_inv_reachable[of env es initialOptions]
        timers_clearSilenceTimeout[of "run env es (mount env initialOptions)"]
  by (auto simp: hook_inv_def abortListening_def Let_def)

text \<open>
  C3, as stated: in every state, also without an instance, \<open>abortListening\<close>
  attempts an abort command. A hook mounted outside a browser has no instance,
  and \<open>abortListening\<close> issues no command there.
\<close>

theorem abortListening_without_instance_counterexample:
  "recognitionRef (mount None None) = None
   \<and> commands (abortListening (mount None None)) = []
   \<and> commands (abortListening (mount None None)) \<noteq> commands (mount None None) @ [Abort]"
  by code_simp

text \<open>
  C3, amended. \<open>abortListening\<close> leaves the state, the instance, the options
  and the transcript ref unchanged in every hook. With an instance it issues an
  abort command and clears the timeout whose handle the hook holds, listening or
  not; without an instance it does nothing at all. In every state a mounted
  hook can reach, no timeout is pending after it, and none is pending where
  there is no instance.
\<close>

theorem abortListening_effect:
  fixes env es initialOptions h
  defines "r \<equiv> run env es (mount env initialOptions)"
  shows
  "state (abortListening h) = state h
   \<and> recognitionRef (abortListening h) = recognitionRef h
   \<and> optionsRef (abortListening h) = optionsRef h
   \<and> transcriptRef (abortListening h) = transcriptRef h
   \<and> (recognitionRef h \<noteq> None \<longrightarrow>
         commands (abortListening h) = commands h @ [Abort]
         \<and> silenceTimeoutRef (abortListening h) = None
         \<and> timers (abortListening h) =
             (case silenceTimeoutRef h of
                None \<Rightarrow> timers h
              | Some handle \<Rightarrow> clearTimeout handle (timers h)))
   \<and> (recognitionRef h = None \<longrightarrow> abortListening h = h)
   \<and> \<not> watchdog_armed (abortListening r)
   \<and> (recognitionRef r = None \<longrightarrow> \<not> watchdog_armed r)"
proof -
  have a: "recognitionRef h \<noteq> None \<longrightarrow>
         commands (abortListening h) = commands h @ [Abort]
         \<and> silenceTimeoutRef (abortListening h) = None
         \<and> timers (abortListening h) =
             (case silenceTimeoutRef h of
                None \<Rightarrow> timers h
              | Some handle \<Rightarrow> clearTimeout handle (timers h))"
    by (simp add: abortListening_def Let_def clearSilenceTimeout_def split: option.splits)
  have b: "recognitionRef h = None \<longrightarrow> abortListening h = h"
    by (simp add: abortListening_def)
  have c: "\<not> watchdog_armed (abortListening r)"
    unfolding r_def by (simp add: watchdog_armed_def timers_abortListening_reachable)
  have d: "recognitionRef r = None \<longrightarrow> \<not> watchdog_armed r"
    unfolding r_def using hook_inv_reachable[of env es initialOptions]
    by (simp add: hook_inv_def watchdog_armed_def)
  from a b c d show ?thesis by simp
qed

theorem abortListening_effect_witness:
  "recognitionRef (run chrome [StartListening None Starts, OnStart 0]
      (mount chrome (Some silence_options))) \<noteq> None
   \<and> timers (run chrome [StartListening None Starts, OnStart 0]
      (mount chrome (Some silence_options))) = [(1, Some 2000)]
   \<and> commands (abortListening (run chrome [StartListening None Starts, OnStart 0]
      (mount chrome (Some silence_options)))) = [Start, Abort]
   \<and> silenceTimeoutRef (abortListening (run chrome [StartListening None Starts, OnStart 0]
      (mount chrome (Some silence_options)))) = None
   \<and> \<not> watchdog_armed (abortListening (run chrome [StartListening None Starts, OnStart 0]
      (mount chrome (Some silence_options))))
   \<and> recognitionRef (mount None None) = None
   \<and> abortListening (mount None None) = mount None None"
proof -
  have i: "recognitionRef (run chrome [StartListening None Starts, OnStart 0]
      (mount chrome (Some silence_options))) \<noteq> None"
    by code_simp
  have t: "timers (run chrome [StartListening None Starts, OnStart 0]
      (mount chrome (Some silence_options))) = [(1, Some 2000)]"
    by code_simp
  have c: "commands (run chrome [StartListening None Starts, OnStart 0]
      (mount chrome (Some silence_options))) = [Start]"
    by code_simp
  have n: "recognitionRef (mount None None) = None"
    by code_simp
  from abortListening_effect
         [of "run chrome [StartListening None Starts, OnStart 0]
                (mount chrome (Some silence_options))"
             chrome "[StartListening None Starts, OnStart 0]" "Some silence_options"]
       abortListening_effect[of "mount None None" None "[]" None]
  show ?thesis using i t c n by simp
qed

section \<open>When the watchdog is armed\<close>

text \<open>
  C4, as stated: in every reachable state the watchdog is armed exactly when the
  hook is listening and auto-stop is enabled. After a start event and an error
  event, with auto-stop enabled, the hook is no longer listening and the
  timeout is still pending.
\<close>

theorem watchdog_after_error_counterexample:
  "\<not> (watchdog_armed (run chrome
          [StartListening None Starts, OnStart 0, OnError ''no-speech'']
          (mount chrome (Some silence_options)))
      \<longleftrightarrow> isListening (state (run chrome
          [StartListening None Starts, OnStart 0, OnError ''no-speech'']
          (mount chrome (Some silence_options))))
        \<and> autoStop_enabled (optionsRef (run chrome
          [StartListening None Starts, OnStart 0, OnError ''no-speech'']
          (mount chrome (Some silence_options)))))"
  by code_simp

text \<open>
  C4, amended. In every state a mounted hook can reach: right after a start
  event the watchdog is armed exactly when the hook is listening and auto-stop
  is enabled; right after a result event it is armed exactly when auto-stop is
  enabled, and the listening flag is as before; right after an end event it is
  disarmed and the hook is not listening. An error event ends listening and
  leaves the watchdog as it was, and \<open>startListening\<close> does not touch it.
\<close>

theorem watchdog_follows_events:
  fixes env es initialOptions
  defines "h \<equiv> run env es (mount env initialOptions)"
  shows
  "(watchdog_armed (onstart now h) \<longleftrightarrow>
      isListening (state (onstart now h)) \<and> autoStop_enabled (optionsRef (onstart now h)))
   \<and> (watchdog_armed (onresult ev clock h) \<longleftrightarrow> autoStop_enabled (optionsRef (onresult ev clock h)))
   \<and> isListening (state (onresult ev clock h)) = isListening (state h)
   \<and> \<not> watchdog_armed (onend h) \<and> \<not> isListening (state (onend h))
   \<and> watchdog_armed (onerror raw h) = watchdog_armed h
   \<and> \<not> isListening (state (onerror raw h))
   \<and> watchdog_armed (startListening env options engine h) = watchdog_armed h"
proof -
  have o: "timers_owned h"
    unfolding h_def using hook_inv_reachable[of env es initialOptions]
    by (simp add: hook_inv_def)
  have o': "timers_owned (setState (\<lambda>prev. prev\<lparr>isListening := True, error := None\<rparr>)
              (h\<lparr>lastSpeechTimeRef := Some now\<rparr>))"
    using o by (simp add: timers_owned_def)
  have s: "watchdog_armed (onstart now h) \<longleftrightarrow>
      isListening (state (onstart now h)) \<and> autoStop_enabled (optionsRef (onstart now h))"
    using timers_resetSilenceTimeout[OF o']
    by (simp add: watchdog_armed_def onstart_state) (simp add: onstart_def)
  have r: "watchdog_armed (onresult ev clock h) \<longleftrightarrow>
      autoStop_enabled (optionsRef (onresult ev clock h))"
    using timers_resetSilenceTimeout[OF o] by (simp add: watchdog_armed_def)
  have e: "\<not> watchdog_armed (onend h)"
    using o by (simp add: watchdog_armed_def timers_onend)
  show ?thesis
    using s r e by (simp add: watchdog_armed_def onresult_state onend_state onerror_state)
qed

theorem watchdog_follows_events_witness:
  "watchdog_armed (onstart 0 (run chrome [StartListening None Starts]
      (mount chrome (Some silence_options))))
   \<and> watchdog_armed (onresult hello_event (\<lambda>i. 1000) (run chrome [StartListening None Starts, OnStart 0]
      (mount chrome (Some silence_options))))
   \<and> \<not> watchdog_armed (onend (run chrome [StartListening None Starts, OnStart 0]
      (mount chrome (Some silence_options))))
   \<and> watchdog_armed (onerror ''no-speech'' (run chrome [StartListening None Starts, OnStart 0]
      (mount chrome (Some silence_options))))
   \<and> \<not> isListening (state (onerror ''no-speech'' (run chrome [StartListening None Starts, OnStart 0]
      (mount chrome (Some silence_options)))))"
proof -
  have a: "autoStop_enabled (optionsRef (run chrome [StartListening None Starts]
      (mount chrome (Some silence_options))))"
    by code_simp
  have b: "autoStop_enabled (optionsRef (run chrome [StartListening None Starts, OnStart 0]
      (mount chrome (Some silence_options))))"
    by code_simp
  have c: "watchdog_armed (run chrome [StartListening None Starts, OnStart 0]
      (mount chrome (Some silence_options)))"
    by code_simp
  from watchdog_follows_events[of 0 chrome "[StartListening None Starts]" "Some silence_options"]
       watchdog_follows_events[of _ chrome "[StartListening None Starts, OnStart 0]"
          "Some silence_options" hello_event "\<lambda>i. 1000" "''no-speech''"]
  show ?thesis using a b c by (simp add: onstart_state)
qed

end
